theory Spec2Isabelle
  imports Main "HOL-Library.Word"
begin

unbundle bit_operations_syntax

section \<open>passphrase2pgp: the user identity packet and the key derivation call\<close>

text \<open>
  A Go \<^verbatim>\<open>byte\<close> is an 8-bit word and a \<^verbatim>\<open>[]byte\<close> a list of them. A Go \<^verbatim>\<open>string\<close> is a
  byte sequence too, so \<^verbatim>\<open>[]byte(options.uid)\<close> is the identity on the model.
\<close>

type_synonym byte = "8 word"

subsection \<open>UserID (package openpgp)\<close>

record UserID =
  ID :: "byte list"
  EnableMDC :: bool

text \<open>
  The builtin \<^verbatim>\<open>copy(dst, src)\<close> overwrites the first \<^verbatim>\<open>min(len(dst), len(src))\<close>
  elements of \<^verbatim>\<open>dst\<close>; the model returns \<^verbatim>\<open>dst\<close> after the call.
\<close>

definition copy_bytes :: "byte list \<Rightarrow> byte list \<Rightarrow> byte list" where
  "copy_bytes dst src = take (length dst) src @ drop (length src) dst"

text \<open>
  \<^verbatim>\<open>func (u *UserID) Packet() []byte\<close>. The slice \<^verbatim>\<open>packet[2:]\<close> aliases the tail of
  \<^verbatim>\<open>packet\<close>, so the copy lands behind the two header bytes. \<^verbatim>\<open>byte(len(u.ID))\<close> keeps the
  low eight bits of the length (\<open>of_nat\<close> into an 8-bit word). The function has no error
  result and no statement of it can panic: the indices 0 and 1 are inside a slice of
  length \<^verbatim>\<open>len(u.ID)+2\<close>.
\<close>

definition Packet :: "UserID \<Rightarrow> byte list" where
  "Packet u =
     (let packet = replicate (length (ID u) + 2) (0 :: byte);
          packet = packet[0 := 0xc0 OR 13];
          packet = packet[1 := of_nat (length (ID u))];
          packet = take 2 packet @ copy_bytes (drop 2 packet) (ID u)
      in packet)"

text \<open>
  What \<^verbatim>\<open>Load\<close> can come back with: the error of \<^verbatim>\<open>readPacket\<close>, its own
  \<^verbatim>\<open>errors.New("invalid input")\<close>, or a run-time panic of an index or slice expression
  (not a returned error; it is a value here so that every way out of the function is a
  branch of the model).
\<close>

datatype error = FramingError | InvalidInput | Panic

text \<open>
  \<^verbatim>\<open>func (u *UserID) Load(r io.Reader) (err error)\<close>. The function \<^verbatim>\<open>readPacket\<close> is
  not part of the sources at hand, so \<open>Load\<close> takes it as the parameter \<open>rp\<close>: from the
  bytes the reader still holds to an error or the packet read. The receiver is passed in
  and returned. \<^verbatim>\<open>packet[0]\<close> panics on an empty slice and \<^verbatim>\<open>packet[2:]\<close> on one shorter
  than two bytes. What the reader holds after the call is left out: nothing below
  depends on it.
\<close>

definition Load :: "(byte list \<Rightarrow> error + byte list) \<Rightarrow> UserID \<Rightarrow> byte list
    \<Rightarrow> error option \<times> UserID" where
  "Load rp u r =
     (case rp r of
        Inl err \<Rightarrow> (Some err, u)
      | Inr packet \<Rightarrow>
          if packet = [] then (Some Panic, u)
          else if packet ! 0 \<noteq> 0xc0 OR 13 then (Some InvalidInput, u)
          else if length packet < 2 then (Some Panic, u)
          else (None, u\<lparr>ID := drop 2 packet\<rparr>))"

text \<open>
  Modelled from the spec: \<^verbatim>\<open>readPacket\<close>, the packet framer's decoder, is missing from the
  sources. The spec has it fail when the header byte's high bits are not \<open>0xC0\<close> or when
  the stream is shorter than the declared single-byte length. \<^verbatim>\<open>Load\<close> reads the header
  byte at \<^verbatim>\<open>packet[0]\<close> and the body at \<^verbatim>\<open>packet[2:]\<close>, so the packet returned is the
  header byte, the length byte and the body.
\<close>

definition readPacket :: "byte list \<Rightarrow> error + byte list" where
  "readPacket r =
     (if length r < 2 then Inl FramingError
      else if (r ! 0) AND 0xc0 \<noteq> 0xc0 then Inl FramingError
      else if length r < 2 + unat (r ! 1) then Inl FramingError
      else Inr (take (2 + unat (r ! 1)) r))"

definition SignType :: "UserID \<Rightarrow> byte" where
  "SignType u = 0x13"

text \<open>
  The type \<^verbatim>\<open>Subpacket\<close> is declared outside the sources at hand; \<^verbatim>\<open>Subpackets\<close> fills its
  two fields \<^verbatim>\<open>Type\<close> and \<^verbatim>\<open>Data\<close>.
\<close>

record Subpacket =
  Type :: byte
  Data :: "byte list"

text \<open>
  \<^verbatim>\<open>func (u *UserID) Subpackets() []Subpacket\<close>: \<^verbatim>\<open>subpackets[:]\<close> is the whole slice,
  \<^verbatim>\<open>subpackets[:1]\<close> its first element.
\<close>

definition Subpackets :: "UserID \<Rightarrow> Subpacket list" where
  "Subpackets u =
     (let subpackets = [\<lparr>Type = 27, Data = [0x03]\<rparr>, \<lparr>Type = 30, Data = [0x01]\<rparr>]
      in if EnableMDC u then subpackets else take 1 subpackets)"

text \<open>
  \<^verbatim>\<open>func (u *UserID) SignData() []byte\<close>: \<^verbatim>\<open>u.Packet()[1:]\<close> drops the header byte (the
  packet is never empty), and \<^verbatim>\<open>append\<close> to the four-byte prefix is concatenation.
\<close>

definition SignData :: "UserID \<Rightarrow> byte list" where
  "SignData u =
     (let prefix = [0xb4, 0, 0, 0];
          packet = drop 1 (Packet u)
      in prefix @ packet)"

subsection \<open>Key derivation (package main)\<close>

definition kdfTime :: int where
  "kdfTime = 8"

definition kdfMemory :: int where
  "kdfMemory = 1024 * 1024"

text \<open>
  The six arguments of \<^verbatim>\<open>argon2.IDKey(password, salt, time, memory, threads, keyLen)\<close>,
  under the parameter names of the library.
\<close>

record argon2_args =
  password :: "byte list"
  salt :: "byte list"
  time :: "32 word"
  memory :: "32 word"
  threads :: byte
  keyLen :: "32 word"

text \<open>
  \<^verbatim>\<open>func kdf(passphrase, uid []byte, scale int) []byte\<close>. \<open>scale\<close> is the value of the Go
  \<^verbatim>\<open>int\<close>. The product is computed in \<^verbatim>\<open>int\<close> (32 or 64 bits wide, wrapping) and then
  converted by \<^verbatim>\<open>uint32(...)\<close>, which keeps the low 32 bits; for either width that is the
  mathematical product modulo \<open>2 ^ 32\<close>, which is \<open>word_of_int\<close> into a 32-bit word.
  \<open>kdf_args\<close> is the call the function makes; \<^verbatim>\<open>argon2.IDKey\<close> itself belongs to an
  external library and is the parameter \<open>IDKey\<close>.
\<close>

definition kdf_args :: "byte list \<Rightarrow> byte list \<Rightarrow> int \<Rightarrow> argon2_args" where
  "kdf_args passphrase uid scale =
     (let time' = (word_of_int (kdfTime * scale) :: 32 word);
          memory' = (word_of_int (kdfMemory * scale) :: 32 word);
          threads' = (1 :: byte)
      in \<lparr>password = passphrase, salt = uid, time = time', memory = memory',
          threads = threads', keyLen = 64\<rparr>)"

definition kdf :: "(argon2_args \<Rightarrow> byte list) \<Rightarrow> byte list \<Rightarrow> byte list \<Rightarrow> int \<Rightarrow> byte list" where
  "kdf IDKey passphrase uid scale = IDKey (kdf_args passphrase uid scale)"

text \<open>
  The fields of \<^verbatim>\<open>options\<close> that the key generation branch of \<^verbatim>\<open>main\<close> reads
  (\<^verbatim>\<open>created\<close> is an \<^verbatim>\<open>int64\<close>, \<^verbatim>\<open>uid\<close> a string).
\<close>

record options =
  created :: int
  paranoid :: bool
  subkey :: bool
  uid :: "byte list"

text \<open>
  The types \<^verbatim>\<open>SignKey\<close> and \<^verbatim>\<open>EncryptKey\<close> and their methods are declared outside the
  sources at hand. The branch of \<^verbatim>\<open>main\<close> below only calls them, so the model records the
  calls, in order, with their arguments.
\<close>

datatype call =
    KeySeed "byte list"
  | KeySetCreated int
  | SubkeySeed "byte list"
  | SubkeySetCreated int

text \<open>
  The branch \<^verbatim>\<open>options.load == ""\<close> of \<^verbatim>\<open>main\<close>, from the passphrase read to the end of
  the branch: the user identity built and the calls made on \<^verbatim>\<open>key\<close> and \<^verbatim>\<open>subkey\<close>.
  \<^verbatim>\<open>seed[:32]\<close> panics when the seed is shorter than 32 bytes (the model takes the
  capacity of the slice to be its length); then nothing of the branch has happened.
\<close>

definition main_keygen :: "(argon2_args \<Rightarrow> byte list) \<Rightarrow> options \<Rightarrow> byte list
    \<Rightarrow> error + (UserID \<times> call list)" where
  "main_keygen IDKey opts passphrase =
     (let scale = (if paranoid opts then 2 else 1);
          seed = kdf IDKey passphrase (uid opts) scale
      in if length seed < 32 then Inl Panic
         else Inr (\<lparr>ID = uid opts, EnableMDC = False\<rparr>,
                   [KeySeed (take 32 seed), KeySetCreated (created opts)] @
                   (if subkey opts
                    then [SubkeySeed (drop 32 seed), SubkeySetCreated (created opts)]
                    else [])))"

subsection \<open>Values and encodings the properties refer to\<close>

text \<open>An identity of 256 zero bytes, one byte more than the length byte can count.\<close>

definition uid256 :: UserID where
  "uid256 = \<lparr>ID = replicate 256 0, EnableMDC = False\<rparr>"

text \<open>
  The four-byte big-endian encoding of a number, most significant byte first, and the
  number a big-endian byte sequence stands for.
\<close>

definition be32 :: "nat \<Rightarrow> byte list" where
  "be32 n = [of_nat (n div 2 ^ 24), of_nat (n div 2 ^ 16), of_nat (n div 2 ^ 8), of_nat n]"

definition be_nat :: "byte list \<Rightarrow> nat" where
  "be_nat bs = foldl (\<lambda>acc b. acc * 256 + unat b) 0 bs"

section \<open>Properties\<close>

subsection \<open>Helper facts\<close>

lemma Packet_eq: "Packet u = 0xCD # of_nat (length (ID u)) # ID u"
  by (simp add: Packet_def copy_bytes_def Let_def)

lemma unat_len_byte: "n \<le> 255 \<Longrightarrow> unat (of_nat n :: byte) = n"
  by (simp add: unat_of_nat)

lemma uint_u32: "0 \<le> k \<Longrightarrow> k < 4294967296 \<Longrightarrow> uint (word_of_int k :: 32 word) = k"
  by (simp add: uint_word_of_int)

lemma readPacket_Packet:
  assumes "length (ID u) \<le> 255"
  shows "readPacket (Packet u @ rest) = Inr (Packet u)"
  using assms by (simp add: readPacket_def Packet_eq unat_len_byte)

lemma kdf_args_eq:
  "kdf_args passphrase identity d =
     \<lparr>password = passphrase, salt = identity, time = word_of_int (8 * d),
      memory = word_of_int (1048576 * d), threads = 1, keyLen = 64\<rparr>"
  by (simp add: kdf_args_def kdfTime_def kdfMemory_def)

subsection \<open>Key derivation\<close>

text \<open>
  Claim C1, as amended. For every passphrase, identity string and difficulty \<open>d\<close> with
  \<open>0 < d < 4096\<close>, \<open>kdf\<close> returns what Argon2id (\<^verbatim>\<open>argon2.IDKey\<close>) computes from the
  passphrase with the identity bytes as salt, time cost \<open>8 * d\<close>, memory cost
  \<open>1048576 * d\<close> KiB, parallelism 1 and key length 64; the result is 64 bytes long,
  given that \<^verbatim>\<open>argon2.IDKey\<close> returns as many bytes as its key length asks for.
\<close>

theorem kdf_argon2id:
  assumes "0 < d" and "d < 4096" and "\<And>a. length (IDKey a) = unat (keyLen a)"
  shows "kdf IDKey passphrase identity d = IDKey (kdf_args passphrase identity d) \<and>
         password (kdf_args passphrase identity d) = passphrase \<and>
         salt (kdf_args passphrase identity d) = identity \<and>
         uint (time (kdf_args passphrase identity d)) = 8 * d \<and>
         uint (memory (kdf_args passphrase identity d)) = 1048576 * d \<and>
         threads (kdf_args passphrase identity d) = 1 \<and>
         keyLen (kdf_args passphrase identity d) = 64 \<and>
         length (kdf IDKey passphrase identity d) = 64"
proof -
  have t: "uint (word_of_int (8 * d) :: 32 word) = 8 * d"
    using assms(1,2) by (intro uint_u32) simp_all
  have m: "uint (word_of_int (1048576 * d) :: 32 word) = 1048576 * d"
    using assms(1,2) by (intro uint_u32) simp_all
  have len: "length (kdf IDKey passphrase identity d) = 64"
    by (simp add: kdf_def assms(3) kdf_args_eq)
  have call: "kdf IDKey passphrase identity d = IDKey (kdf_args passphrase identity d)"
    by (simp only: kdf_def)
  have fields: "password (kdf_args passphrase identity d) = passphrase \<and>
      salt (kdf_args passphrase identity d) = identity \<and>
      threads (kdf_args passphrase identity d) = 1 \<and>
      keyLen (kdf_args passphrase identity d) = 64"
    by (simp add: kdf_args_eq)
  have "uint (time (kdf_args passphrase identity d)) = 8 * d"
    using t by (simp only: kdf_args_eq argon2_args.simps)
  moreover have "uint (memory (kdf_args passphrase identity d)) = 1048576 * d"
    using m by (simp only: kdf_args_eq argon2_args.simps)
  ultimately show ?thesis
    using len call fields by blast
qed

theorem kdf_argon2id_witness:
  "(0 :: int) < 1 \<and> (1 :: int) < 4096 \<and>
   kdf (\<lambda>a. replicate (unat (keyLen a)) 0) [0x70] [0x61] 1 = replicate 64 0 \<and>
   time (kdf_args [0x70] [0x61] 1) = 8 \<and> memory (kdf_args [0x70] [0x61] 1) = 1048576"
  using kdf_argon2id [of 1 "\<lambda>a. replicate (unat (keyLen a)) 0" "[0x70]" "[0x61]"]
  by (simp add: kdf_def kdf_args_eq)

text \<open>
  As the claim is written, for every positive \<open>d\<close>, it fails at \<open>d = 4096\<close>: the product
  \<open>1048576 * 4096 = 2 ^ 32\<close> does not fit the \<^verbatim>\<open>uint32\<close> that \<^verbatim>\<open>argon2.IDKey\<close> takes,
  and the memory cost handed over is 0.
\<close>

theorem kdf_memory_4096_counterexample:
  "memory (kdf_args [0x70] [0x61] 4096) = 0 \<and>
   uint (memory (kdf_args [0x70] [0x61] 4096)) < 1048576 * 4096 \<and>
   time (kdf_args [0x70] [0x61] 4096) = 32768"
  by (simp add: kdf_args_eq)

text \<open>
  Claim C2. In the key generation branch of \<^verbatim>\<open>main\<close> the signing key is seeded with the
  bytes 0..31 of the derived seed and, when a subkey is asked for, the encryption subkey
  with the bytes 32..63; the two index ranges share no position. The seed is 64 bytes long
  given that \<^verbatim>\<open>argon2.IDKey\<close> returns as many bytes as its key length asks for.
\<close>

theorem main_keygen_seed_halves:
  assumes "\<And>a. length (IDKey a) = unat (keyLen a)"
    and "seed = kdf IDKey passphrase (uid opts) (if paranoid opts then 2 else 1)"
  shows "main_keygen IDKey opts passphrase =
           Inr (\<lparr>ID = uid opts, EnableMDC = False\<rparr>,
                KeySeed (map ((!) seed) [0..<32]) # KeySetCreated (created opts) #
                (if subkey opts
                 then [SubkeySeed (map ((!) seed) [32..<64]), SubkeySetCreated (created opts)]
                 else [])) \<and>
         length seed = 64 \<and> set [0..<32] \<inter> set [32..<64] = ({} :: nat set)"
proof -
  have len: "length seed = 64"
    by (simp add: assms kdf_def kdf_args_def)
  have lo: "take 32 seed = map ((!) seed) [0..<32]"
    by (rule nth_equalityI) (simp_all add: len)
  have hi: "drop 32 seed = map ((!) seed) [32..<64]"
    by (rule nth_equalityI) (simp_all add: len del: upt_rec_numeral)
  have "main_keygen IDKey opts passphrase =
           Inr (\<lparr>ID = uid opts, EnableMDC = False\<rparr>,
                KeySeed (take 32 seed) # KeySetCreated (created opts) #
                (if subkey opts
                 then [SubkeySeed (drop 32 seed), SubkeySetCreated (created opts)]
                 else []))"
    using len by (simp add: main_keygen_def assms(2) [symmetric] Let_def)
  then show ?thesis
    using len by (simp only: lo hi) simp
qed

theorem main_keygen_seed_halves_witness:
  "main_keygen (\<lambda>a. map of_nat [0..<unat (keyLen a)])
       \<lparr>created = 0, paranoid = False, subkey = True, uid = [0x61]\<rparr> [0x70]
     = Inr (\<lparr>ID = [0x61], EnableMDC = False\<rparr>,
            [KeySeed (map of_nat [0..<32]), KeySetCreated 0,
             SubkeySeed (map of_nat [32..<64]), SubkeySetCreated 0])"
  using main_keygen_seed_halves [of "\<lambda>a. map of_nat [0..<unat (keyLen a)]"
      "kdf (\<lambda>a. map of_nat [0..<unat (keyLen a)]) [0x70] [0x61] 1" "[0x70]"
      "\<lparr>created = 0, paranoid = False, subkey = True, uid = [0x61]\<rparr>"]
  by (simp add: kdf_def kdf_args_def)

subsection \<open>The user identity packet\<close>

text \<open>
  Claim C3. The claim asks that an identity of 255 bytes is encoded and that one of 256
  bytes is refused, so that no packet ever carries a wrong length byte. The code does the
  first and misses the second: \<^verbatim>\<open>packet[1] = byte(len(u.ID))\<close>, commented as the packet
  length, keeps only the low eight bits. At the 255-byte identity the length byte is
  \<open>0xFF\<close>; at the 256-byte identity \<^verbatim>\<open>Packet\<close> returns 258 bytes whose length byte is 0,
  a packet that declares an empty body in front of 256 bytes of identity.
\<close>

theorem Packet_256_length_byte:
  "length (ID uid256) = 256 \<and> Packet uid256 = 0xCD # 0 # replicate 256 0 \<and>
   length (Packet uid256) = 258 \<and> unat (Packet uid256 ! 1) < length (ID uid256) \<and>
   Packet \<lparr>ID = replicate 255 0x61, EnableMDC = False\<rparr> = 0xCD # 0xFF # replicate 255 0x61"
  by (simp add: Packet_eq uid256_def)

text \<open>
  Claim C4. For every UserID whose identity is at most 255 bytes long, \<^verbatim>\<open>Packet\<close> returns
  \<open>length (ID u) + 2\<close> bytes: the header byte \<open>0xC0 OR 13\<close>, a byte equal to the length of
  the identity, and the identity bytes unchanged.
\<close>

theorem Packet_layout:
  assumes "length (ID u) \<le> 255"
  shows "length (Packet u) = length (ID u) + 2 \<and> Packet u ! 0 = 0xc0 OR 13 \<and>
         unat (Packet u ! 1) = length (ID u) \<and> drop 2 (Packet u) = ID u"
  using assms by (simp add: Packet_eq unat_len_byte)

theorem Packet_layout_witness:
  "length (ID \<lparr>ID = [0x61, 0x62], EnableMDC = False\<rparr>) \<le> 255 \<and>
   Packet \<lparr>ID = [0x61, 0x62], EnableMDC = False\<rparr> = [0xCD, 2, 0x61, 0x62]"
  using Packet_layout [of "\<lparr>ID = [0x61, 0x62], EnableMDC = False\<rparr>"]
  by (simp add: Packet_eq)

text \<open>
  Claim C5, as amended. For every UserID \<open>u\<close> whose identity is at most 255 bytes long and
  every receiver \<open>v\<close>, \<^verbatim>\<open>Load\<close> on the bytes of \<open>Packet u\<close> (whatever follows them in the
  stream) succeeds and leaves the receiver with the identity of \<open>u\<close> and its own
  \<^verbatim>\<open>EnableMDC\<close>; the result is \<open>u\<close> when the receiver's flag is that of \<open>u\<close>.
\<close>

theorem Load_Packet_roundtrip:
  assumes "length (ID u) \<le> 255"
  shows "Load readPacket v (Packet u @ rest) =
           (None, \<lparr>ID = ID u, EnableMDC = EnableMDC v\<rparr>)"
  using assms by (simp add: Load_def readPacket_Packet) (simp add: Packet_eq)

theorem Load_Packet_roundtrip_witness:
  "length (ID \<lparr>ID = [0x61, 0x62], EnableMDC = True\<rparr>) \<le> 255 \<and>
   Load readPacket \<lparr>ID = [], EnableMDC = False\<rparr>
       (Packet \<lparr>ID = [0x61, 0x62], EnableMDC = True\<rparr> @ [0x88])
     = (None, \<lparr>ID = [0x61, 0x62], EnableMDC = False\<rparr>)"
  using Load_Packet_roundtrip [of "\<lparr>ID = [0x61, 0x62], EnableMDC = True\<rparr>"
      "\<lparr>ID = [], EnableMDC = False\<rparr>" "[0x88]"]
  by simp

text \<open>
  As the claim is written it fails: loaded into a fresh UserID (the zero value, as
  \<^verbatim>\<open>main\<close> does), the packet of an identity with \<^verbatim>\<open>EnableMDC\<close> set comes back with the flag
  clear, and the packet of the 256-byte identity comes back with an empty identity.
\<close>

theorem Load_Packet_counterexample:
  "Load readPacket \<lparr>ID = [], EnableMDC = False\<rparr> (Packet \<lparr>ID = [0x61], EnableMDC = True\<rparr>)
     = (None, \<lparr>ID = [0x61], EnableMDC = False\<rparr>) \<and>
   Load readPacket \<lparr>ID = [], EnableMDC = False\<rparr> (Packet \<lparr>ID = [0x61], EnableMDC = True\<rparr>)
     \<noteq> (None, \<lparr>ID = [0x61], EnableMDC = True\<rparr>) \<and>
   Load readPacket \<lparr>ID = [], EnableMDC = False\<rparr> (Packet uid256)
     = (None, \<lparr>ID = [], EnableMDC = False\<rparr>) \<and>
   Load readPacket \<lparr>ID = [], EnableMDC = False\<rparr> (Packet uid256) \<noteq> (None, uid256)"
  by (simp add: Load_def readPacket_def Packet_eq uid256_def)

text \<open>
  Claim C6. For every UserID, \<^verbatim>\<open>Subpackets\<close> returns the key flags subpacket (type 27,
  data \<open>0x03\<close>, the certify bit \<open>0x01\<close> and the sign bit \<open>0x02\<close>) first, then the features
  subpacket (type 30, data \<open>0x01\<close>) exactly when \<^verbatim>\<open>EnableMDC\<close> is set, and nothing else.
\<close>

theorem Subpackets_contents:
  "Subpackets u = \<lparr>Type = 27, Data = [0x01 OR 0x02]\<rparr> #
     (if EnableMDC u then [\<lparr>Type = 30, Data = [0x01]\<rparr>] else [])"
  by (simp add: Subpackets_def)

text \<open>
  Claim C7. For every UserID whose identity is at most 255 bytes long, \<^verbatim>\<open>SignData\<close>
  returns the byte \<open>0xb4\<close>, the length of the identity as four big-endian bytes, and the
  identity bytes: \<open>length (ID u) + 5\<close> bytes in all.
\<close>

theorem SignData_layout:
  assumes "length (ID u) \<le> 255"
  shows "SignData u = 0xb4 # be32 (length (ID u)) @ ID u \<and>
         be_nat (be32 (length (ID u))) = length (ID u) \<and>
         length (SignData u) = length (ID u) + 5"
  using assms by (simp add: SignData_def Packet_eq be32_def be_nat_def unat_len_byte)

theorem SignData_layout_witness:
  "length (ID \<lparr>ID = [0x61, 0x62], EnableMDC = False\<rparr>) \<le> 255 \<and>
   SignData \<lparr>ID = [0x61, 0x62], EnableMDC = False\<rparr> = [0xb4, 0, 0, 0, 2, 0x61, 0x62]"
  using SignData_layout [of "\<lparr>ID = [0x61, 0x62], EnableMDC = False\<rparr>"]
  by (simp add: be32_def)

text \<open>
  Claim C8. For every input stream whose first byte is not the header byte \<open>0xC0 OR 13\<close>,
  or that ends before the packet it declares does, \<^verbatim>\<open>Load\<close> returns an error (the
  framer's, or its own "invalid input"; both are format errors), does not panic, and
  leaves the receiver as it was: no identity is decoded.
\<close>

theorem Load_rejects_wrong_tag:
  assumes "hd r \<noteq> 0xc0 OR 13 \<or> length r < 2 + unat (r ! 1)"
  shows "Load readPacket u r = (Some FramingError, u) \<or>
         Load readPacket u r = (Some InvalidInput, u)"
  using assms by (cases r) (auto simp add: Load_def readPacket_def)

theorem Load_rejects_wrong_tag_witness:
  "Load readPacket \<lparr>ID = [0x61], EnableMDC = True\<rparr> [0xC5, 1, 0x62]
     = (Some InvalidInput, \<lparr>ID = [0x61], EnableMDC = True\<rparr>) \<and>
   Load readPacket \<lparr>ID = [0x61], EnableMDC = True\<rparr> [0xCD, 2, 0x62]
     = (Some FramingError, \<lparr>ID = [0x61], EnableMDC = True\<rparr>)"
  using Load_rejects_wrong_tag [of "[0xC5, 1, 0x62]" "\<lparr>ID = [0x61], EnableMDC = True\<rparr>"]
  by (simp add: Load_def readPacket_def)

text \<open>
  Claim C10. \<^verbatim>\<open>Load\<close> changes no field of the receiver but \<^verbatim>\<open>ID\<close>: for every packet
  reader, every receiver and every input stream, whether the call succeeds, returns an
  error or panics, \<^verbatim>\<open>EnableMDC\<close> holds afterwards the value it held before.
\<close>

theorem Load_keeps_EnableMDC:
  "EnableMDC (snd (Load rp u r)) = EnableMDC u \<and>
   snd (Load rp u r) = u\<lparr>ID := ID (snd (Load rp u r))\<rparr>"
  by (simp add: Load_def split: sum.split)

end
